theory Spec2Isabelle
  imports Main "HOL-Library.Word"
begin

section \<open>The DOC service API of bce-sdk-go (services/doc/api/document.go)\<close>

text \<open>
  The file document.go holds seven functions, one per remote operation. Each builds a
  \<^verbatim>\<open>bce.BceRequest\<close>, hands it to the client's \<^verbatim>\<open>SendRequest\<close>, and turns the
  \<^verbatim>\<open>bce.BceResponse\<close> into a typed result or an error. The embedding follows the Go text
  statement by statement. Go strings are byte sequences, modelled as \<^typ>\<open>string\<close>;
  \<^verbatim>\<open>int64\<close> is \<^typ>\<open>64 word\<close> read through \<^const>\<open>sint\<close>; a pointer that may be
  \<^verbatim>\<open>nil\<close> is an \<^typ>\<open>'a option\<close>; a Go \<^verbatim>\<open>map[string]string\<close> is a map
  \<^typ>\<open>string \<rightharpoonup> string\<close>.
\<close>

subsection \<open>Errors\<close>

record BceServiceError =
  Code :: string
  Message :: string
  RequestId :: string

text \<open>
  The values of Go's \<^verbatim>\<open>error\<close> interface that the file can return: the result of
  \<^verbatim>\<open>errors.New\<close>, the service error decoded from a failure response, and an error made by
  a collaborator (transport, codec, parameter check), which the file passes on unchanged.
\<close>

datatype error =
  errors_New string
  | ServiceErr BceServiceError
  | CollaboratorErr string

text \<open>
  What running a Go call can do besides returning: a nil-pointer dereference panics.
\<close>

datatype 'a go = Returns 'a | Panics

subsection \<open>Requests and responses of package bce\<close>

record Body =
  Stream :: string
  Size :: int

record BceRequest =
  Uri :: string
  Method :: string
  Params :: "string \<rightharpoonup> string"
  Headers :: "string \<rightharpoonup> string"
  Body :: "Body option"

text \<open>
  Modelled from the spec: the type \<^verbatim>\<open>bce.BceRequest\<close> and its setters are declared outside
  services/doc/api. The spec calls it a request descriptor (URI, query parameters,
  method, headers, optional body); each setter stores its argument in the field it names,
  the two keyed setters in the map under the key. \<^verbatim>\<open>&bce.BceRequest{}\<close> is Go's zero value:
  empty strings, no map entries, no body.
\<close>

definition new_BceRequest :: BceRequest where
  "new_BceRequest =
     \<lparr>Uri = '''', Method = '''', Params = Map.empty, Headers = Map.empty, Body = None\<rparr>"

definition SetUri :: "string \<Rightarrow> BceRequest \<Rightarrow> BceRequest" where
  "SetUri u req = req\<lparr>Uri := u\<rparr>"

definition SetMethod :: "string \<Rightarrow> BceRequest \<Rightarrow> BceRequest" where
  "SetMethod m req = req\<lparr>Method := m\<rparr>"

definition SetParam :: "string \<Rightarrow> string \<Rightarrow> BceRequest \<Rightarrow> BceRequest" where
  "SetParam k v req = req\<lparr>Params := (Params req)(k \<mapsto> v)\<rparr>"

definition SetHeader :: "string \<Rightarrow> string \<Rightarrow> BceRequest \<Rightarrow> BceRequest" where
  "SetHeader k v req = req\<lparr>Headers := (Headers req)(k \<mapsto> v)\<rparr>"

definition SetBody :: "Body \<Rightarrow> BceRequest \<Rightarrow> BceRequest" where
  "SetBody b req = req\<lparr>Body := Some b\<rparr>"

text \<open>
  Modelled from the spec: \<^verbatim>\<open>bce.NewBodyFromString\<close> is declared outside services/doc/api.
  The spec gives the body of Register as the serialized parameter object, so the model
  wraps the string with its length. The Go signature can return an error; the result type
  keeps that branch for the caller.
\<close>

definition NewBodyFromString :: "string \<Rightarrow> error + Body" where
  "NewBodyFromString str = Inr \<lparr>Stream = str, Size = int (length str)\<rparr>"

text \<open>
  Modelled from the spec: the constants of packages \<^verbatim>\<open>http\<close> and \<^verbatim>\<open>bce\<close> are declared
  outside services/doc/api. The methods are the HTTP verbs and the header is the one the
  spec names; of the default content type the spec fixes only that it is one constant, and
  no statement below depends on its characters.
\<close>

definition GET :: string where "GET = ''GET''"
definition PUT :: string where "PUT = ''PUT''"
definition POST :: string where "POST = ''POST''"
definition DELETE :: string where "DELETE = ''DELETE''"
definition CONTENT_TYPE :: string where "CONTENT_TYPE = ''Content-Type''"
definition DEFAULT_CONTENT_TYPE :: string where
  "DEFAULT_CONTENT_TYPE = ''application/json;charset=utf-8''"

text \<open>
  Modelled from the spec: the type \<^verbatim>\<open>bce.BceResponse\<close> is declared outside
  services/doc/api. The record holds what the file reads from a response: the answer of
  \<^verbatim>\<open>IsFail()\<close>, the service error envelope that \<^verbatim>\<open>ServiceError()\<close> returns, and the body
  that \<^verbatim>\<open>ParseJsonBody\<close> decodes.
\<close>

record BceResponse =
  IsFail :: bool
  ServiceError :: BceServiceError
  ResponseBody :: string

text \<open>
  The client \<^verbatim>\<open>cli\<close> is an interface value supplied by the caller. Its
  \<^verbatim>\<open>SendRequest(req, resp)\<close> either returns an error or fills the response, so it is a
  function from the request to one or the other; no operation calls it twice, so the
  transport's own state is not threaded. The decoder \<^verbatim>\<open>resp.ParseJsonBody(result)\<close>
  is the codec collaborator: it either returns an error or fills the typed result.
\<close>

type_synonym Client = "BceRequest \<Rightarrow> error + BceResponse"

type_synonym 'r ParseJsonBody = "BceResponse \<Rightarrow> error + 'r"

text \<open>
  The calls a function makes on its collaborators, in order: every \<^verbatim>\<open>SendRequest\<close> with the
  request it was given and every \<^verbatim>\<open>ParseJsonBody\<close> with the response it read. Each function
  returns this trace next to its Go return value, so that "no network call" and "no
  decoding" are statements about the trace.
\<close>

datatype event = Sent BceRequest | Parsed BceResponse

fun sent :: "event list \<Rightarrow> BceRequest list" where
  "sent [] = []"
| "sent (Sent req # es) = req # sent es"
| "sent (Parsed resp # es) = sent es"

fun parsed :: "event list \<Rightarrow> BceResponse list" where
  "parsed [] = []"
| "parsed (Sent req # es) = parsed es"
| "parsed (Parsed resp # es) = resp # parsed es"

subsection \<open>Formatting functions of the Go library\<close>

definition Sprintf_document :: "string \<Rightarrow> string" where
  \<comment> \<open>\<^verbatim>\<open>fmt.Sprintf("/v2/document/%s", documentId)\<close>\<close>
  "Sprintf_document documentId = ''/v2/document/'' @ documentId"

definition FormatBool :: "bool \<Rightarrow> string" where
  "FormatBool b = (if b then ''true'' else ''false'')"

fun decimal :: "nat \<Rightarrow> string" where
  "decimal n =
     (if n < 10 then [''0123456789'' ! n]
      else decimal (n div 10) @ [''0123456789'' ! (n mod 10)])"

declare decimal.simps [simp del]

definition FormatInt10 :: "64 word \<Rightarrow> string" where
  \<comment> \<open>\<^verbatim>\<open>strconv.FormatInt(i, 10)\<close> on an \<^verbatim>\<open>int64\<close>\<close>
  "FormatInt10 i =
     (if sint i < 0 then ''-'' @ decimal (nat (- sint i)) else decimal (nat (sint i)))"

text \<open>
  Reading a base-10 numeral back, to state that \<open>decimal\<close> writes the number it was given.
\<close>

definition digit_value :: "char \<Rightarrow> nat" where
  "digit_value c = of_char c - 48"

definition read_decimal :: "string \<Rightarrow> nat" where
  "read_decimal s = foldl (\<lambda>a c. 10 * a + digit_value c) 0 s"

subsection \<open>Parameter objects (model.go)\<close>

record RegDocumentParam =
  Title :: string
  Format :: string

record QueryDocumentParam =
  Https :: bool

record ReadDocumentParam =
  ExpireInSeconds :: "64 word"

record ListDocumentsParam =
  Status :: string
  Marker :: string
  MaxSize :: "64 word"

subsection \<open>The seven operations\<close>

text \<open>
  \<^verbatim>\<open>regParam.String()\<close> and \<^verbatim>\<open>listParam.Check()\<close> are methods declared in model.go, outside
  the file; they are parameters of the functions that call them. \<^verbatim>\<open>Check\<close> has a pointer
  receiver and is called before any nil test, so it takes the pointer as it is and may panic.
\<close>

definition RegisterDocument ::
  "(RegDocumentParam \<Rightarrow> error + string) \<Rightarrow> 'r ParseJsonBody \<Rightarrow> Client \<Rightarrow>
   RegDocumentParam option \<Rightarrow> (error + 'r) \<times> event list" where
  "RegisterDocument String ParseJsonBody cli regParam =
     (case regParam of
        None \<Rightarrow> (Inl (errors_New ''param cannot be nil''), [])
      | Some p \<Rightarrow>
         (case String p of
            Inl err \<Rightarrow> (Inl err, [])
          | Inr playload \<Rightarrow>
             (case NewBodyFromString playload of
                Inl err \<Rightarrow> (Inl err, [])
              | Inr body \<Rightarrow>
                 (let req = new_BceRequest;
                      req = SetUri ''/v2/document'' req;
                      req = SetParam ''register'' '''' req;
                      req = SetMethod POST req;
                      req = SetHeader CONTENT_TYPE DEFAULT_CONTENT_TYPE req;
                      req = SetBody body req
                  in (case cli req of
                        Inl err \<Rightarrow> (Inl err, [Sent req])
                      | Inr resp \<Rightarrow>
                         (if IsFail resp then (Inl (ServiceErr (ServiceError resp)), [Sent req])
                          else (case ParseJsonBody resp of
                                  Inl err \<Rightarrow> (Inl err, [Sent req, Parsed resp])
                                | Inr result \<Rightarrow> (Inr result, [Sent req, Parsed resp]))))))))"

definition PublishDocument :: "Client \<Rightarrow> string \<Rightarrow> error option \<times> event list" where
  "PublishDocument cli documentId =
     (let req = new_BceRequest;
          urlPath = Sprintf_document documentId;
          req = SetUri urlPath req;
          req = SetParam ''publish'' '''' req;
          req = SetMethod PUT req;
          req = SetHeader CONTENT_TYPE DEFAULT_CONTENT_TYPE req
      in (case cli req of
            Inl err \<Rightarrow> (Some err, [Sent req])
          | Inr resp \<Rightarrow>
             (if IsFail resp then (Some (ServiceErr (ServiceError resp)), [Sent req])
              else (None, [Sent req]))))"

definition QueryDocument ::
  "'r ParseJsonBody \<Rightarrow> Client \<Rightarrow> string \<Rightarrow> QueryDocumentParam option \<Rightarrow>
   (error + 'r) \<times> event list" where
  "QueryDocument ParseJsonBody cli documentId queryParam =
     (let req = new_BceRequest;
          urlPath = Sprintf_document documentId;
          req = SetUri urlPath req;
          req = (case queryParam of
                   None \<Rightarrow> req
                 | Some q \<Rightarrow> SetParam ''https'' (FormatBool (Https q)) req);
          req = SetMethod GET req;
          req = SetHeader CONTENT_TYPE DEFAULT_CONTENT_TYPE req
      in (case cli req of
            Inl err \<Rightarrow> (Inl err, [Sent req])
          | Inr resp \<Rightarrow>
             (if IsFail resp then (Inl (ServiceErr (ServiceError resp)), [Sent req])
              else (case ParseJsonBody resp of
                      Inl err \<Rightarrow> (Inl err, [Sent req, Parsed resp])
                    | Inr result \<Rightarrow> (Inr result, [Sent req, Parsed resp])))))"

definition ReadDocument ::
  "'r ParseJsonBody \<Rightarrow> Client \<Rightarrow> string \<Rightarrow> ReadDocumentParam option \<Rightarrow>
   (error + 'r) \<times> event list" where
  "ReadDocument ParseJsonBody cli documentId readParam =
     (let req = new_BceRequest;
          urlPath = Sprintf_document documentId;
          req = SetUri urlPath req;
          req = SetParam ''read'' '''' req;
          req = (case readParam of
                   None \<Rightarrow> req
                 | Some r \<Rightarrow> SetParam ''expireInSeconds'' (FormatInt10 (ExpireInSeconds r)) req);
          req = SetMethod GET req;
          req = SetHeader CONTENT_TYPE DEFAULT_CONTENT_TYPE req
      in (case cli req of
            Inl err \<Rightarrow> (Inl err, [Sent req])
          | Inr resp \<Rightarrow>
             (if IsFail resp then (Inl (ServiceErr (ServiceError resp)), [Sent req])
              else (case ParseJsonBody resp of
                      Inl err \<Rightarrow> (Inl err, [Sent req, Parsed resp])
                    | Inr result \<Rightarrow> (Inr result, [Sent req, Parsed resp])))))"

definition GetImages ::
  "'r ParseJsonBody \<Rightarrow> Client \<Rightarrow> string \<Rightarrow> (error + 'r) \<times> event list" where
  "GetImages ParseJsonBody cli documentId =
     (let req = new_BceRequest;
          urlPath = Sprintf_document documentId;
          req = SetUri urlPath req;
          req = SetParam ''getImages'' '''' req;
          req = SetMethod GET req;
          req = SetHeader CONTENT_TYPE DEFAULT_CONTENT_TYPE req
      in (case cli req of
            Inl err \<Rightarrow> (Inl err, [Sent req])
          | Inr resp \<Rightarrow>
             (if IsFail resp then (Inl (ServiceErr (ServiceError resp)), [Sent req])
              else (case ParseJsonBody resp of
                      Inl err \<Rightarrow> (Inl err, [Sent req, Parsed resp])
                    | Inr result \<Rightarrow> (Inr result, [Sent req, Parsed resp])))))"

definition DeleteDocument :: "Client \<Rightarrow> string \<Rightarrow> error option \<times> event list" where
  "DeleteDocument cli documentId =
     (let req = new_BceRequest;
          urlPath = Sprintf_document documentId;
          req = SetUri urlPath req;
          req = SetMethod DELETE req;
          req = SetHeader CONTENT_TYPE DEFAULT_CONTENT_TYPE req
      in (case cli req of
            Inl err \<Rightarrow> (Some err, [Sent req])
          | Inr resp \<Rightarrow>
             (if IsFail resp then (Some (ServiceErr (ServiceError resp)), [Sent req])
              else (None, [Sent req]))))"

text \<open>
  ListDocuments calls \<^verbatim>\<open>listParam.Check()\<close> first, on the pointer as given. When the check
  returns no error the function reads \<^verbatim>\<open>listParam.Status\<close>, which panics on a nil pointer.
\<close>

definition ListDocuments ::
  "(ListDocumentsParam option \<Rightarrow> error option go) \<Rightarrow> 'r ParseJsonBody \<Rightarrow> Client \<Rightarrow>
   ListDocumentsParam option \<Rightarrow> (error + 'r) go \<times> event list" where
  "ListDocuments Check ParseJsonBody cli listParam =
     (case Check listParam of
        Panics \<Rightarrow> (Panics, [])
      | Returns (Some err) \<Rightarrow> (Returns (Inl err), [])
      | Returns None \<Rightarrow>
         (case listParam of
            None \<Rightarrow> (Panics, [])
          | Some p \<Rightarrow>
             (let req = new_BceRequest;
                  req = SetUri ''/v2/document/'' req;
                  req = SetMethod GET req;
                  req = (if Status p \<noteq> '''' then SetParam ''status'' (Status p) req else req);
                  req = (if Marker p \<noteq> '''' then SetParam ''marker'' (Marker p) req else req);
                  req = (if MaxSize p \<noteq> 0
                         then SetParam ''maxSize'' (FormatInt10 (MaxSize p)) req else req)
              in (case cli req of
                    Inl err \<Rightarrow> (Returns (Inl err), [Sent req])
                  | Inr resp \<Rightarrow>
                     (if IsFail resp
                      then (Returns (Inl (ServiceErr (ServiceError resp))), [Sent req])
                      else (case ParseJsonBody resp of
                              Inl err \<Rightarrow> (Returns (Inl err), [Sent req, Parsed resp])
                            | Inr result \<Rightarrow>
                                (Returns (Inr result), [Sent req, Parsed resp])))))))"

subsection \<open>The statements the operations share\<close>

text \<open>
  Every operation ends with the same statements: send the request, return the transport's
  error, else return the service error of a failure response, else decode the body (the two
  operations without a typed result return nil instead). They are named here for the
  proofs only; each operation above is written out as in the Go text and is shown equal to
  its request followed by these statements.
\<close>

definition dispatch :: "'r ParseJsonBody \<Rightarrow> Client \<Rightarrow> BceRequest \<Rightarrow> (error + 'r) \<times> event list" where
  "dispatch ParseJsonBody cli req =
     (case cli req of
        Inl err \<Rightarrow> (Inl err, [Sent req])
      | Inr resp \<Rightarrow>
         (if IsFail resp then (Inl (ServiceErr (ServiceError resp)), [Sent req])
          else (case ParseJsonBody resp of
                  Inl err \<Rightarrow> (Inl err, [Sent req, Parsed resp])
                | Inr result \<Rightarrow> (Inr result, [Sent req, Parsed resp]))))"

definition dispatch_error :: "Client \<Rightarrow> BceRequest \<Rightarrow> error option \<times> event list" where
  "dispatch_error cli req =
     (case cli req of
        Inl err \<Rightarrow> (Some err, [Sent req])
      | Inr resp \<Rightarrow>
         (if IsFail resp then (Some (ServiceErr (ServiceError resp)), [Sent req])
          else (None, [Sent req])))"

subsection \<open>Instances of the collaborators\<close>

text \<open>
  Modelled from the spec: \<^verbatim>\<open>ListDocumentsParam.Check\<close> is declared in model.go, outside the
  file, and the spec leaves its constraints open but for one example: a negative maxSize is
  invalid. This instance rejects exactly that. It reads a field of its receiver, so on a
  nil receiver it panics. The operations take the check as a parameter; this instance
  only supplies concrete inputs.
\<close>

definition Check_maxSize :: "ListDocumentsParam option \<Rightarrow> error option go" where
  "Check_maxSize listParam =
     (case listParam of
        None \<Rightarrow> Panics
      | Some p \<Rightarrow>
         (if sint (MaxSize p) < 0 then Returns (Some (CollaboratorErr ''invalid maxSize''))
          else Returns None))"

text \<open>
  Test doubles for the codec, for concrete inputs only; the operations take the serializer
  as a parameter, and the doubles stand for no code of the repository. A plain character
  is a printable ASCII character other than the double quote, the backslash, \<^verbatim>\<open><\<close>,
  \<^verbatim>\<open>>\<close> and \<^verbatim>\<open>&\<close>; inside a JSON string a plain character stands for itself. The
  serializer double writes the object with the keys \<^verbatim>\<open>title\<close> and \<^verbatim>\<open>format\<close>, in that
  order, when both fields are made of plain characters, and returns an error for any other
  field. The decoder double reads texts of exactly that shape and returns an error for any
  other text.
\<close>

definition dquote :: char where "dquote = CHR 0x22"
definition bslash :: char where "bslash = CHR 0x5C"

definition plain_char :: "char \<Rightarrow> bool" where
  "plain_char c =
     (32 \<le> (of_char c :: nat) \<and> (of_char c :: nat) \<le> 126 \<and>
      c \<notin> set [dquote, bslash, CHR ''<'', CHR ''>'', CHR ''&''])"

definition quoted :: "string \<Rightarrow> string" where
  "quoted s = dquote # s @ [dquote]"

definition plain_String :: "RegDocumentParam \<Rightarrow> error + string" where
  "plain_String p =
     (if list_all plain_char (Title p) \<and> list_all plain_char (Format p)
      then Inr (''{'' @ quoted ''title'' @ '':'' @ quoted (Title p) @ '','' @
                quoted ''format'' @ '':'' @ quoted (Format p) @ ''}'')
      else Inl (CollaboratorErr ''unsupported character''))"



text \<open>
  Test doubles: a transport that answers every request with one fixed response, two
  responses (a failure carrying the service error code NotFound, and a success), and a
  decoder that returns the body text as the typed result.
\<close>

definition answering :: "BceResponse \<Rightarrow> Client" where
  "answering resp req = Inr resp"

definition NotFound :: BceResponse where
  "NotFound =
     \<lparr>IsFail = True,
      ServiceError = \<lparr>Code = ''NotFound'', Message = ''no such document'', RequestId = ''r1''\<rparr>,
      ResponseBody = ''''\<rparr>"

definition Success :: BceResponse where
  "Success =
     \<lparr>IsFail = False,
      ServiceError = \<lparr>Code = '''', Message = '''', RequestId = ''''\<rparr>,
      ResponseBody = ''{}''\<rparr>"

definition body_text :: "string ParseJsonBody" where
  "body_text resp = Inr (ResponseBody resp)"

section \<open>Properties\<close>

subsection \<open>The shared statements\<close>

lemma sent_dispatch: "sent (snd (dispatch ParseJsonBody cli req)) = [req]"
  by (simp add: dispatch_def split: sum.split)

lemma sent_dispatch_error: "sent (snd (dispatch_error cli req)) = [req]"
  by (simp add: dispatch_error_def split: sum.split)

lemma dispatch_fail:
  assumes "cli req = Inr resp" and "IsFail resp"
  shows "dispatch ParseJsonBody cli req = (Inl (ServiceErr (ServiceError resp)), [Sent req])"
  using assms by (simp add: dispatch_def)

lemma dispatch_error_fail:
  assumes "cli req = Inr resp" and "IsFail resp"
  shows "dispatch_error cli req = (Some (ServiceErr (ServiceError resp)), [Sent req])"
  using assms by (simp add: dispatch_error_def)

subsection \<open>The request each operation builds\<close>

lemmas setters = new_BceRequest_def SetUri_def SetMethod_def SetParam_def SetHeader_def
  SetBody_def Sprintf_document_def

lemma RegisterDocument_eq:
  "RegisterDocument String ParseJsonBody cli (Some p) =
     (case String p of
        Inl err \<Rightarrow> (Inl err, [])
      | Inr playload \<Rightarrow>
          dispatch ParseJsonBody cli
            \<lparr>Uri = ''/v2/document'', Method = POST, Params = [''register'' \<mapsto> ''''],
             Headers = [CONTENT_TYPE \<mapsto> DEFAULT_CONTENT_TYPE],
             Body = Some \<lparr>Stream = playload, Size = int (length playload)\<rparr>\<rparr>)"
proof (cases "String p")
  case (Inl err)
  then show ?thesis by (simp add: RegisterDocument_def)
next
  case (Inr playload)
  have req: "(let req = new_BceRequest;
                  req = SetUri ''/v2/document'' req;
                  req = SetParam ''register'' '''' req;
                  req = SetMethod POST req;
                  req = SetHeader CONTENT_TYPE DEFAULT_CONTENT_TYPE req;
                  req = SetBody \<lparr>Stream = playload, Size = int (length playload)\<rparr> req
              in req) =
     \<lparr>Uri = ''/v2/document'', Method = POST, Params = [''register'' \<mapsto> ''''],
      Headers = [CONTENT_TYPE \<mapsto> DEFAULT_CONTENT_TYPE],
      Body = Some \<lparr>Stream = playload, Size = int (length playload)\<rparr>\<rparr>"
    by (simp add: setters)
  show ?thesis
    unfolding RegisterDocument_def dispatch_def Let_def NewBodyFromString_def Inr
      option.case sum.case req [unfolded Let_def]
    by (rule refl)
qed

lemma PublishDocument_eq:
  "PublishDocument cli documentId =
     dispatch_error cli
       \<lparr>Uri = ''/v2/document/'' @ documentId, Method = PUT, Params = [''publish'' \<mapsto> ''''],
        Headers = [CONTENT_TYPE \<mapsto> DEFAULT_CONTENT_TYPE], Body = None\<rparr>"
proof -
  have req: "(let req = new_BceRequest;
                  urlPath = Sprintf_document documentId;
                  req = SetUri urlPath req;
                  req = SetParam ''publish'' '''' req;
                  req = SetMethod PUT req;
                  req = SetHeader CONTENT_TYPE DEFAULT_CONTENT_TYPE req
              in req) =
     \<lparr>Uri = ''/v2/document/'' @ documentId, Method = PUT, Params = [''publish'' \<mapsto> ''''],
      Headers = [CONTENT_TYPE \<mapsto> DEFAULT_CONTENT_TYPE], Body = None\<rparr>"
    by (simp add: setters)
  show ?thesis
    unfolding PublishDocument_def dispatch_error_def Let_def req [unfolded Let_def]
    by (rule refl)
qed

lemma QueryDocument_eq:
  "QueryDocument ParseJsonBody cli documentId queryParam =
     dispatch ParseJsonBody cli
       \<lparr>Uri = ''/v2/document/'' @ documentId, Method = GET,
        Params = (case queryParam of
                    None \<Rightarrow> Map.empty
                  | Some q \<Rightarrow> [''https'' \<mapsto> FormatBool (Https q)]),
        Headers = [CONTENT_TYPE \<mapsto> DEFAULT_CONTENT_TYPE], Body = None\<rparr>"
proof -
  have req: "(let req = new_BceRequest;
                  urlPath = Sprintf_document documentId;
                  req = SetUri urlPath req;
                  req = (case queryParam of
                           None \<Rightarrow> req
                         | Some q \<Rightarrow> SetParam ''https'' (FormatBool (Https q)) req);
                  req = SetMethod GET req;
                  req = SetHeader CONTENT_TYPE DEFAULT_CONTENT_TYPE req
              in req) =
     \<lparr>Uri = ''/v2/document/'' @ documentId, Method = GET,
      Params = (case queryParam of
                  None \<Rightarrow> Map.empty
                | Some q \<Rightarrow> [''https'' \<mapsto> FormatBool (Https q)]),
      Headers = [CONTENT_TYPE \<mapsto> DEFAULT_CONTENT_TYPE], Body = None\<rparr>"
    by (cases queryParam) (simp_all add: setters)
  show ?thesis
    unfolding QueryDocument_def dispatch_def Let_def req [unfolded Let_def]
    by (rule refl)
qed

lemma ReadDocument_eq:
  "ReadDocument ParseJsonBody cli documentId readParam =
     dispatch ParseJsonBody cli
       \<lparr>Uri = ''/v2/document/'' @ documentId, Method = GET,
        Params = (case readParam of
                    None \<Rightarrow> [''read'' \<mapsto> '''']
                  | Some r \<Rightarrow> [''read'' \<mapsto> '''',
                               ''expireInSeconds'' \<mapsto> FormatInt10 (ExpireInSeconds r)]),
        Headers = [CONTENT_TYPE \<mapsto> DEFAULT_CONTENT_TYPE], Body = None\<rparr>"
proof -
  have req: "(let req = new_BceRequest;
                  urlPath = Sprintf_document documentId;
                  req = SetUri urlPath req;
                  req = SetParam ''read'' '''' req;
                  req = (case readParam of
                           None \<Rightarrow> req
                         | Some r \<Rightarrow>
                             SetParam ''expireInSeconds'' (FormatInt10 (ExpireInSeconds r)) req);
                  req = SetMethod GET req;
                  req = SetHeader CONTENT_TYPE DEFAULT_CONTENT_TYPE req
              in req) =
     \<lparr>Uri = ''/v2/document/'' @ documentId, Method = GET,
      Params = (case readParam of
                  None \<Rightarrow> [''read'' \<mapsto> '''']
                | Some r \<Rightarrow> [''read'' \<mapsto> '''',
                             ''expireInSeconds'' \<mapsto> FormatInt10 (ExpireInSeconds r)]),
      Headers = [CONTENT_TYPE \<mapsto> DEFAULT_CONTENT_TYPE], Body = None\<rparr>"
    by (cases readParam) (simp_all add: setters)
  show ?thesis
    unfolding ReadDocument_def dispatch_def Let_def req [unfolded Let_def]
    by (rule refl)
qed

lemma GetImages_eq:
  "GetImages ParseJsonBody cli documentId =
     dispatch ParseJsonBody cli
       \<lparr>Uri = ''/v2/document/'' @ documentId, Method = GET, Params = [''getImages'' \<mapsto> ''''],
        Headers = [CONTENT_TYPE \<mapsto> DEFAULT_CONTENT_TYPE], Body = None\<rparr>"
proof -
  have req: "(let req = new_BceRequest;
                  urlPath = Sprintf_document documentId;
                  req = SetUri urlPath req;
                  req = SetParam ''getImages'' '''' req;
                  req = SetMethod GET req;
                  req = SetHeader CONTENT_TYPE DEFAULT_CONTENT_TYPE req
              in req) =
     \<lparr>Uri = ''/v2/document/'' @ documentId, Method = GET, Params = [''getImages'' \<mapsto> ''''],
      Headers = [CONTENT_TYPE \<mapsto> DEFAULT_CONTENT_TYPE], Body = None\<rparr>"
    by (simp add: setters)
  show ?thesis
    unfolding GetImages_def dispatch_def Let_def req [unfolded Let_def]
    by (rule refl)
qed

lemma DeleteDocument_eq:
  "DeleteDocument cli documentId =
     dispatch_error cli
       \<lparr>Uri = ''/v2/document/'' @ documentId, Method = DELETE, Params = Map.empty,
        Headers = [CONTENT_TYPE \<mapsto> DEFAULT_CONTENT_TYPE], Body = None\<rparr>"
proof -
  have req: "(let req = new_BceRequest;
                  urlPath = Sprintf_document documentId;
                  req = SetUri urlPath req;
                  req = SetMethod DELETE req;
                  req = SetHeader CONTENT_TYPE DEFAULT_CONTENT_TYPE req
              in req) =
     \<lparr>Uri = ''/v2/document/'' @ documentId, Method = DELETE, Params = Map.empty,
      Headers = [CONTENT_TYPE \<mapsto> DEFAULT_CONTENT_TYPE], Body = None\<rparr>"
    by (simp add: setters)
  show ?thesis
    unfolding DeleteDocument_def dispatch_error_def Let_def req [unfolded Let_def]
    by (rule refl)
qed

lemma ListDocuments_eq:
  assumes "Check (Some p) = Returns None"
  shows "ListDocuments Check ParseJsonBody cli (Some p) =
     apfst Returns (dispatch ParseJsonBody cli
       \<lparr>Uri = ''/v2/document/'', Method = GET,
        Params = (\<lambda>k. if k = ''maxSize'' \<and> MaxSize p \<noteq> 0 then Some (FormatInt10 (MaxSize p))
                      else if k = ''marker'' \<and> Marker p \<noteq> '''' then Some (Marker p)
                      else if k = ''status'' \<and> Status p \<noteq> '''' then Some (Status p)
                      else None),
        Headers = Map.empty, Body = None\<rparr>)"
proof -
  have req: "(let req = new_BceRequest;
                  req = SetUri ''/v2/document/'' req;
                  req = SetMethod GET req;
                  req = (if Status p \<noteq> '''' then SetParam ''status'' (Status p) req else req);
                  req = (if Marker p \<noteq> '''' then SetParam ''marker'' (Marker p) req else req);
                  req = (if MaxSize p \<noteq> 0
                         then SetParam ''maxSize'' (FormatInt10 (MaxSize p)) req else req)
              in req) =
     \<lparr>Uri = ''/v2/document/'', Method = GET,
      Params = (\<lambda>k. if k = ''maxSize'' \<and> MaxSize p \<noteq> 0 then Some (FormatInt10 (MaxSize p))
                    else if k = ''marker'' \<and> Marker p \<noteq> '''' then Some (Marker p)
                    else if k = ''status'' \<and> Status p \<noteq> '''' then Some (Status p)
                    else None),
      Headers = Map.empty, Body = None\<rparr>"
    by (auto simp add: setters Let_def fun_eq_iff)
  show ?thesis
    unfolding ListDocuments_def Let_def req [unfolded Let_def] assms go.case option.case
      dispatch_def
    by (simp split: sum.split)
qed


subsection \<open>Base-10 formatting\<close>

lemma digit_value_digit:
  assumes "d < 10"
  shows "digit_value (''0123456789'' ! d) = d"
proof -
  from assms have "d \<in> {0, 1, 2, 3, 4, 5, 6, 7, 8, 9}" by auto
  then show ?thesis by (auto simp add: digit_value_def)
qed

lemma read_decimal_snoc: "read_decimal (s @ [c]) = 10 * read_decimal s + digit_value c"
  by (simp add: read_decimal_def)

lemma read_decimal_decimal: "read_decimal (decimal n) = n"
proof (induction n rule: decimal.induct)
  case (1 n)
  show ?case
  proof (cases "n < 10")
    case True
    then show ?thesis
      by (subst decimal.simps) (simp add: read_decimal_def digit_value_digit)
  next
    case False
    with 1 have "read_decimal (decimal (n div 10)) = n div 10" by simp
    with False show ?thesis
      by (subst decimal.simps) (simp add: read_decimal_snoc digit_value_digit)
  qed
qed

lemma digit_of_value:
  assumes "c \<in> set ''0123456789''"
  shows "digit_value c < 10 \<and> ''0123456789'' ! digit_value c = c"
  using assms by (auto simp add: digit_value_def)

lemma decimal_nonempty: "decimal n \<noteq> []"
  by (subst decimal.simps) simp

lemma decimal_digits: "set (decimal n) \<subseteq> set ''0123456789''"
proof (induction n rule: decimal.induct)
  case (1 n)
  have digit: "''0123456789'' ! d \<in> set ''0123456789''" if "d < 10" for d
    using that by (intro nth_mem) simp
  show ?case
  proof (cases "n < 10")
    case True
    with digit [of n] show ?thesis
      by (subst decimal.simps) simp
  next
    case False
    with 1 have "set (decimal (n div 10)) \<subseteq> set ''0123456789''" by simp
    with False digit [of "n mod 10"] show ?thesis
      by (subst decimal.simps) simp
  qed
qed

lemma hd_decimal:
  assumes "0 < n"
  shows "hd (decimal n) \<noteq> CHR ''0''"
  using assms
proof (induction n rule: decimal.induct)
  case (1 n)
  show ?case
  proof (cases "n < 10")
    case True
    with \<open>0 < n\<close> have "n \<in> {1, 2, 3, 4, 5, 6, 7, 8, 9}" by auto
    then have "''0123456789'' ! n \<noteq> CHR ''0''" by auto
    with True show ?thesis
      by (subst decimal.simps) simp
  next
    case False
    then have "0 < n div 10" by simp
    with 1 False have "hd (decimal (n div 10)) \<noteq> CHR ''0''" by simp
    with False show ?thesis
      by (subst decimal.simps) (simp add: decimal_nonempty)
  qed
qed

lemma read_decimal_zero:
  assumes "set ds \<subseteq> set ''0123456789''" and "read_decimal ds = 0"
  shows "set ds \<subseteq> {CHR ''0''}"
  using assms
proof (induction ds rule: rev_induct)
  case Nil
  show ?case by simp
next
  case (snoc c ds)
  from snoc.prems have c: "c \<in> set ''0123456789''" and ds: "set ds \<subseteq> set ''0123456789''"
    by simp_all
  from snoc.prems(2) have "read_decimal ds = 0" and "digit_value c = 0"
    by (simp_all add: read_decimal_snoc)
  with snoc.IH ds digit_of_value [OF c] have "set ds \<subseteq> {CHR ''0''}" and "c = CHR ''0''"
    by auto
  then show ?case by simp
qed

text \<open>
  A numeral made of digits, not empty and not starting with \<^verbatim>\<open>0\<close>, is determined by the
  number it reads as.
\<close>

lemma decimal_read_decimal:
  assumes "ds \<noteq> []" and "set ds \<subseteq> set ''0123456789''" and "hd ds \<noteq> CHR ''0''"
  shows "decimal (read_decimal ds) = ds"
  using assms
proof (induction ds rule: rev_induct)
  case Nil
  then show ?case by simp
next
  case (snoc c ds)
  from snoc.prems have c: "c \<in> set ''0123456789''" and ds: "set ds \<subseteq> set ''0123456789''"
    by simp_all
  note dc = digit_of_value [OF c]
  show ?case
  proof (cases "ds = []")
    case True
    with dc show ?thesis
      by (subst decimal.simps) (simp add: read_decimal_def)
  next
    case False
    with snoc.prems have hd: "hd ds \<noteq> CHR ''0''" by simp
    from False have "hd ds \<in> set ds" by (rule hd_in_set)
    with hd have "\<not> set ds \<subseteq> {CHR ''0''}" by auto
    with read_decimal_zero [OF ds] have pos: "0 < read_decimal ds" by auto
    from snoc.IH [OF False ds hd] have ih: "decimal (read_decimal ds) = ds" .
    from pos dc have "\<not> 10 * read_decimal ds + digit_value c < 10"
      and "(10 * read_decimal ds + digit_value c) div 10 = read_decimal ds"
      and "(10 * read_decimal ds + digit_value c) mod 10 = digit_value c"
      by simp_all
    with ih dc show ?thesis
      by (subst decimal.simps) (simp add: read_decimal_snoc)
  qed
qed

lemma FormatInt10_digits:
  assumes "i \<noteq> 0"
  shows "\<exists>ds. FormatInt10 i = (if sint i < 0 then ''-'' else '''') @ ds
          \<and> ds \<noteq> [] \<and> set ds \<subseteq> set ''0123456789'' \<and> hd ds \<noteq> CHR ''0''
          \<and> int (read_decimal ds) = \<bar>sint i\<bar>"
proof -
  from assms have nz: "sint i \<noteq> 0" by (simp add: signed_eq_0_iff)
  let ?ds = "decimal (nat \<bar>sint i\<bar>)"
  have "FormatInt10 i = (if sint i < 0 then ''-'' else '''') @ ?ds"
    by (simp add: FormatInt10_def)
  moreover have "?ds \<noteq> []" by (rule decimal_nonempty)
  moreover have "set ?ds \<subseteq> set ''0123456789''" by (rule decimal_digits)
  moreover from nz have "hd ?ds \<noteq> CHR ''0''" by (intro hd_decimal) simp
  moreover have "int (read_decimal ?ds) = \<bar>sint i\<bar>" by (simp add: read_decimal_decimal)
  ultimately show ?thesis by blast
qed

subsection \<open>The codec doubles at one input\<close>

lemma plain_String_t_pdf:
  "plain_String \<lparr>Title = ''t'', Format = ''pdf''\<rparr> =
     Inr (''{'' @ dquote # ''title'' @ dquote # '':'' @ dquote # ''t'' @ dquote # '','' @
          dquote # ''format'' @ dquote # '':'' @ dquote # ''pdf'' @ dquote # ''}'')"
  by (simp add: plain_String_def plain_char_def quoted_def dquote_def bslash_def)


subsection \<open>A failure response, operation by operation\<close>

lemma RegisterDocument_service_error:
  assumes "sent (snd (RegisterDocument String ParseJsonBody cli regParam)) = [req]"
    and "cli req = Inr resp" and "IsFail resp"
  shows "RegisterDocument String ParseJsonBody cli regParam =
           (Inl (ServiceErr (ServiceError resp)), [Sent req])"
proof (cases regParam)
  case None
  with assms(1) show ?thesis by (simp add: RegisterDocument_def)
next
  case (Some p)
  show ?thesis
  proof (cases "String p")
    case (Inl err)
    with assms(1) Some show ?thesis by (simp add: RegisterDocument_eq)
  next
    case (Inr playload)
    with assms Some show ?thesis
      by (simp add: RegisterDocument_eq sent_dispatch dispatch_fail)
  qed
qed

lemma ListDocuments_service_error:
  assumes "sent (snd (ListDocuments Check ParseJsonBody cli listParam)) = [req]"
    and "cli req = Inr resp" and "IsFail resp"
  shows "ListDocuments Check ParseJsonBody cli listParam =
           (Returns (Inl (ServiceErr (ServiceError resp))), [Sent req])"
proof (cases "Check listParam")
  case Panics
  with assms(1) show ?thesis by (simp add: ListDocuments_def)
next
  case (Returns e)
  show ?thesis
  proof (cases e)
    case (Some err)
    with assms(1) Returns show ?thesis by (simp add: ListDocuments_def)
  next
    case None
    show ?thesis
    proof (cases listParam)
      case nil: None
      with assms(1) Returns None show ?thesis by (simp add: ListDocuments_def)
    next
      case (Some p)
      with Returns None have chk: "Check (Some p) = Returns None" by simp
      from assms Some show ?thesis
        by (simp add: ListDocuments_eq [of Check p, OF chk] sent_dispatch dispatch_fail)
    qed
  qed
qed

subsection \<open>The claims\<close>

text \<open>
  C1. Let the transport answer the request \<open>req\<close> with a response \<open>resp\<close> for which
  \<^verbatim>\<open>IsFail()\<close> holds. Then each of the seven operations that sent \<open>req\<close> returns the
  service error of \<open>resp\<close> and no typed result (the Go pair \<^verbatim>\<open>nil, resp.ServiceError()\<close>; for
  PublishDocument and DeleteDocument, which have no typed result, the error alone), and its
  trace is the one \<^verbatim>\<open>SendRequest\<close>: \<^verbatim>\<open>ParseJsonBody\<close> is not called.
\<close>

theorem service_failure_returns_service_error:
  assumes "cli req = Inr resp" and "IsFail resp"
  shows
    "(sent (snd (RegisterDocument String ParseReg cli regParam)) = [req] \<longrightarrow>
        RegisterDocument String ParseReg cli regParam =
          (Inl (ServiceErr (ServiceError resp)), [Sent req]))
   \<and> (sent (snd (PublishDocument cli publishId)) = [req] \<longrightarrow>
        PublishDocument cli publishId = (Some (ServiceErr (ServiceError resp)), [Sent req]))
   \<and> (sent (snd (QueryDocument ParseQuery cli queryId queryParam)) = [req] \<longrightarrow>
        QueryDocument ParseQuery cli queryId queryParam =
          (Inl (ServiceErr (ServiceError resp)), [Sent req]))
   \<and> (sent (snd (ReadDocument ParseRead cli readId readParam)) = [req] \<longrightarrow>
        ReadDocument ParseRead cli readId readParam =
          (Inl (ServiceErr (ServiceError resp)), [Sent req]))
   \<and> (sent (snd (GetImages ParseImages cli imagesId)) = [req] \<longrightarrow>
        GetImages ParseImages cli imagesId =
          (Inl (ServiceErr (ServiceError resp)), [Sent req]))
   \<and> (sent (snd (DeleteDocument cli deleteId)) = [req] \<longrightarrow>
        DeleteDocument cli deleteId = (Some (ServiceErr (ServiceError resp)), [Sent req]))
   \<and> (sent (snd (ListDocuments Check ParseList cli listParam)) = [req] \<longrightarrow>
        ListDocuments Check ParseList cli listParam =
          (Returns (Inl (ServiceErr (ServiceError resp))), [Sent req]))"
proof (intro conjI impI)
  assume "sent (snd (RegisterDocument String ParseReg cli regParam)) = [req]"
  then show "RegisterDocument String ParseReg cli regParam =
      (Inl (ServiceErr (ServiceError resp)), [Sent req])"
    using assms by (rule RegisterDocument_service_error)
next
  assume "sent (snd (PublishDocument cli publishId)) = [req]"
  with assms show "PublishDocument cli publishId =
      (Some (ServiceErr (ServiceError resp)), [Sent req])"
    by (simp add: PublishDocument_eq sent_dispatch_error dispatch_error_fail)
next
  assume "sent (snd (QueryDocument ParseQuery cli queryId queryParam)) = [req]"
  with assms show "QueryDocument ParseQuery cli queryId queryParam =
      (Inl (ServiceErr (ServiceError resp)), [Sent req])"
    by (simp add: QueryDocument_eq sent_dispatch dispatch_fail)
next
  assume "sent (snd (ReadDocument ParseRead cli readId readParam)) = [req]"
  with assms show "ReadDocument ParseRead cli readId readParam =
      (Inl (ServiceErr (ServiceError resp)), [Sent req])"
    by (simp add: ReadDocument_eq sent_dispatch dispatch_fail)
next
  assume "sent (snd (GetImages ParseImages cli imagesId)) = [req]"
  with assms show "GetImages ParseImages cli imagesId =
      (Inl (ServiceErr (ServiceError resp)), [Sent req])"
    by (simp add: GetImages_eq sent_dispatch dispatch_fail)
next
  assume "sent (snd (DeleteDocument cli deleteId)) = [req]"
  with assms show "DeleteDocument cli deleteId =
      (Some (ServiceErr (ServiceError resp)), [Sent req])"
    by (simp add: DeleteDocument_eq sent_dispatch_error dispatch_error_fail)
next
  assume "sent (snd (ListDocuments Check ParseList cli listParam)) = [req]"
  then show "ListDocuments Check ParseList cli listParam =
      (Returns (Inl (ServiceErr (ServiceError resp))), [Sent req])"
    using assms by (rule ListDocuments_service_error)
qed

text \<open>
  The theorem at a transport that answers every request with the NotFound failure: all
  seven operations return that service error, and none decodes a body.
\<close>

theorem service_failure_witness:
  "IsFail NotFound
   \<and> fst (RegisterDocument plain_String body_text (answering NotFound)
            (Some \<lparr>Title = ''t'', Format = ''pdf''\<rparr>)) = Inl (ServiceErr (ServiceError NotFound))
   \<and> parsed (snd (RegisterDocument plain_String body_text (answering NotFound)
            (Some \<lparr>Title = ''t'', Format = ''pdf''\<rparr>))) = []
   \<and> fst (PublishDocument (answering NotFound) ''abc123'') =
         Some (ServiceErr (ServiceError NotFound))
   \<and> fst (QueryDocument body_text (answering NotFound) ''abc123'' (Some \<lparr>Https = True\<rparr>)) =
         Inl (ServiceErr (ServiceError NotFound))
   \<and> parsed (snd (QueryDocument body_text (answering NotFound) ''abc123''
            (Some \<lparr>Https = True\<rparr>))) = []
   \<and> fst (ReadDocument body_text (answering NotFound) ''abc123'' None) =
         Inl (ServiceErr (ServiceError NotFound))
   \<and> parsed (snd (ReadDocument body_text (answering NotFound) ''abc123'' None)) = []
   \<and> fst (GetImages body_text (answering NotFound) ''abc123'') =
         Inl (ServiceErr (ServiceError NotFound))
   \<and> parsed (snd (GetImages body_text (answering NotFound) ''abc123'')) = []
   \<and> fst (DeleteDocument (answering NotFound) ''abc123'') =
         Some (ServiceErr (ServiceError NotFound))
   \<and> fst (ListDocuments Check_maxSize body_text (answering NotFound)
            (Some \<lparr>Status = '''', Marker = ''m1'', MaxSize = 20\<rparr>)) =
         Returns (Inl (ServiceErr (ServiceError NotFound)))
   \<and> parsed (snd (ListDocuments Check_maxSize body_text (answering NotFound)
            (Some \<lparr>Status = '''', Marker = ''m1'', MaxSize = 20\<rparr>))) = []"
proof -
  let ?cli = "answering NotFound"
  let ?reg = "RegisterDocument plain_String body_text ?cli (Some \<lparr>Title = ''t'', Format = ''pdf''\<rparr>)"
  let ?pub = "PublishDocument ?cli ''abc123''"
  let ?qry = "QueryDocument body_text ?cli ''abc123'' (Some \<lparr>Https = True\<rparr>)"
  let ?rd = "ReadDocument body_text ?cli ''abc123'' None"
  let ?img = "GetImages body_text ?cli ''abc123''"
  let ?del = "DeleteDocument ?cli ''abc123''"
  let ?lst = "ListDocuments Check_maxSize body_text ?cli
                (Some \<lparr>Status = '''', Marker = ''m1'', MaxSize = 20\<rparr>)"
  have ans: "?cli req = Inr NotFound" for req
    by (simp add: answering_def)
  have fail: "IsFail NotFound"
    by (simp add: NotFound_def)
  note th = service_failure_returns_service_error
    [where cli = ?cli and resp = NotFound, OF ans fail]
  have chk: "Check_maxSize (Some \<lparr>Status = '''', Marker = ''m1'', MaxSize = 20\<rparr>) = Returns None"
    by (simp add: Check_maxSize_def)
  have "sent (snd ?reg) = [hd (sent (snd ?reg))]"
    by (simp add: RegisterDocument_eq plain_String_t_pdf sent_dispatch)
  from th [THEN conjunct1, THEN mp, OF this]
  have reg: "?reg = (Inl (ServiceErr (ServiceError NotFound)), [Sent (hd (sent (snd ?reg)))])" .
  have "sent (snd ?pub) = [hd (sent (snd ?pub))]"
    by (simp add: PublishDocument_eq sent_dispatch_error)
  from th [THEN conjunct2, THEN conjunct1, THEN mp, OF this]
  have pub: "?pub = (Some (ServiceErr (ServiceError NotFound)), [Sent (hd (sent (snd ?pub)))])" .
  have "sent (snd ?qry) = [hd (sent (snd ?qry))]"
    by (simp add: QueryDocument_eq sent_dispatch)
  from th [THEN conjunct2, THEN conjunct2, THEN conjunct1, THEN mp, OF this]
  have qry: "?qry = (Inl (ServiceErr (ServiceError NotFound)), [Sent (hd (sent (snd ?qry)))])" .
  have "sent (snd ?rd) = [hd (sent (snd ?rd))]"
    by (simp add: ReadDocument_eq sent_dispatch)
  from th [THEN conjunct2, THEN conjunct2, THEN conjunct2, THEN conjunct1, THEN mp, OF this]
  have rd: "?rd = (Inl (ServiceErr (ServiceError NotFound)), [Sent (hd (sent (snd ?rd)))])" .
  have "sent (snd ?img) = [hd (sent (snd ?img))]"
    by (simp add: GetImages_eq sent_dispatch)
  from th [THEN conjunct2, THEN conjunct2, THEN conjunct2, THEN conjunct2, THEN conjunct1,
      THEN mp, OF this]
  have img: "?img = (Inl (ServiceErr (ServiceError NotFound)), [Sent (hd (sent (snd ?img)))])" .
  have "sent (snd ?del) = [hd (sent (snd ?del))]"
    by (simp add: DeleteDocument_eq sent_dispatch_error)
  from th [THEN conjunct2, THEN conjunct2, THEN conjunct2, THEN conjunct2, THEN conjunct2,
      THEN conjunct1, THEN mp, OF this]
  have del: "?del = (Some (ServiceErr (ServiceError NotFound)), [Sent (hd (sent (snd ?del)))])" .
  have "sent (snd ?lst) = [hd (sent (snd ?lst))]"
    by (simp add: ListDocuments_eq [of Check_maxSize, OF chk] sent_dispatch)
  from th [THEN conjunct2, THEN conjunct2, THEN conjunct2, THEN conjunct2, THEN conjunct2,
      THEN conjunct2, THEN mp, OF this]
  have lst: "?lst = (Returns (Inl (ServiceErr (ServiceError NotFound))),
                     [Sent (hd (sent (snd ?lst)))])" .
  show ?thesis
    by (subst reg, subst reg, subst pub, subst qry, subst qry, subst rd, subst rd, subst img,
        subst img, subst del, subst lst, subst lst) (simp add: fail)
qed

text \<open>
  C2. RegisterDocument called with a nil regParam returns the error made by
  \<^verbatim>\<open>errors.New("param cannot be nil")\<close> and no result, and its trace is empty: SendRequest
  is invoked zero times (and nothing is decoded), whatever the serializer, the decoder and
  the client are.
\<close>

theorem RegisterDocument_nil_param:
  "RegisterDocument String ParseJsonBody cli None =
     (Inl (errors_New ''param cannot be nil''), [])
   \<and> sent (snd (RegisterDocument String ParseJsonBody cli None)) = []"
  by (simp add: RegisterDocument_def)

text \<open>
  C3. QueryDocument called with a nil queryParam sends one request whose query parameters
  have no key \<^verbatim>\<open>https\<close>, and ReadDocument called with a nil readParam sends one request
  whose query parameters have no key \<^verbatim>\<open>expireInSeconds\<close>: the key is not in the map at
  all.
\<close>

theorem absent_optional_params_omit_keys:
  "(\<exists>req. sent (snd (QueryDocument ParseQuery cli queryId None)) = [req]
          \<and> ''https'' \<notin> dom (Params req))
   \<and> (\<exists>req. sent (snd (ReadDocument ParseRead cli readId None)) = [req]
          \<and> ''expireInSeconds'' \<notin> dom (Params req))"
  by (simp add: QueryDocument_eq ReadDocument_eq sent_dispatch)

text \<open>
  C4. When \<^verbatim>\<open>listParam.Check()\<close> returns an error, ListDocuments returns that error and no
  result, and its trace is empty: SendRequest is invoked zero times.
\<close>

theorem ListDocuments_check_fails:
  assumes "Check listParam = Returns (Some err)"
  shows "ListDocuments Check ParseJsonBody cli listParam = (Returns (Inl err), [])
         \<and> sent (snd (ListDocuments Check ParseJsonBody cli listParam)) = []"
  using assms by (simp add: ListDocuments_def)

text \<open>
  The theorem at a negative maxSize, with the check that rejects it.
\<close>

theorem ListDocuments_check_fails_witness:
  "sint (MaxSize \<lparr>Status = '''', Marker = '''', MaxSize = - 1\<rparr>) < 0
   \<and> Check_maxSize (Some \<lparr>Status = '''', Marker = '''', MaxSize = - 1\<rparr>) =
         Returns (Some (CollaboratorErr ''invalid maxSize''))
   \<and> ListDocuments Check_maxSize body_text (answering Success)
         (Some \<lparr>Status = '''', Marker = '''', MaxSize = - 1\<rparr>) =
         (Returns (Inl (CollaboratorErr ''invalid maxSize'')), [])
   \<and> sent (snd (ListDocuments Check_maxSize body_text (answering Success)
         (Some \<lparr>Status = '''', Marker = '''', MaxSize = - 1\<rparr>))) = []"
proof -
  have neg: "sint (MaxSize \<lparr>Status = '''', Marker = '''', MaxSize = - 1\<rparr>) < 0"
    by simp
  have chk: "Check_maxSize (Some \<lparr>Status = '''', Marker = '''', MaxSize = - 1\<rparr>) =
      Returns (Some (CollaboratorErr ''invalid maxSize''))"
    by (simp add: Check_maxSize_def)
  from neg chk ListDocuments_check_fails [where Check = Check_maxSize and ParseJsonBody = body_text
      and cli = "answering Success", OF chk]
  show ?thesis by simp
qed

text \<open>
  C5. When \<^verbatim>\<open>listParam.Check()\<close> returns no error, ListDocuments sends one request, with
  method GET and path \<^verbatim>\<open>/v2/document/\<close>. Its query parameters hold \<^verbatim>\<open>status\<close> exactly when
  Status is not the empty string, \<^verbatim>\<open>marker\<close> exactly when Marker is not the empty string,
  and \<^verbatim>\<open>maxSize\<close> exactly when MaxSize is not zero; they hold no other key. The value of
  \<^verbatim>\<open>maxSize\<close> is the decimal numeral of MaxSize: a minus sign when MaxSize is negative, then
  digits \<^verbatim>\<open>0\<close> to \<^verbatim>\<open>9\<close>, at least one, the first not \<^verbatim>\<open>0\<close>, that read in base 10 as the
  absolute value of MaxSize.
\<close>

theorem ListDocuments_request:
  assumes "Check (Some p) = Returns None"
  shows "\<exists>req. sent (snd (ListDocuments Check ParseJsonBody cli (Some p))) = [req]
          \<and> Method req = GET
          \<and> Uri req = ''/v2/document/''
          \<and> Params req ''status'' = (if Status p = '''' then None else Some (Status p))
          \<and> Params req ''marker'' = (if Marker p = '''' then None else Some (Marker p))
          \<and> (if MaxSize p = 0 then Params req ''maxSize'' = None
              else \<exists>ds. Params req ''maxSize'' =
                          Some ((if sint (MaxSize p) < 0 then ''-'' else '''') @ ds)
                        \<and> ds \<noteq> [] \<and> set ds \<subseteq> set ''0123456789'' \<and> hd ds \<noteq> CHR ''0''
                        \<and> int (read_decimal ds) = \<bar>sint (MaxSize p)\<bar>)
          \<and> dom (Params req) \<subseteq> {''status'', ''marker'', ''maxSize''}"
proof -
  let ?req = "\<lparr>Uri = ''/v2/document/'', Method = GET,
        Params = (\<lambda>k. if k = ''maxSize'' \<and> MaxSize p \<noteq> 0 then Some (FormatInt10 (MaxSize p))
                      else if k = ''marker'' \<and> Marker p \<noteq> '''' then Some (Marker p)
                      else if k = ''status'' \<and> Status p \<noteq> '''' then Some (Status p)
                      else None),
        Headers = Map.empty, Body = None\<rparr>"
  have sent: "sent (snd (ListDocuments Check ParseJsonBody cli (Some p))) = [?req]"
    by (simp add: ListDocuments_eq [of Check p, OF assms] sent_dispatch)
  have maxSize: "if MaxSize p = 0 then Params ?req ''maxSize'' = None
      else \<exists>ds. Params ?req ''maxSize'' =
                  Some ((if sint (MaxSize p) < 0 then ''-'' else '''') @ ds)
                \<and> ds \<noteq> [] \<and> set ds \<subseteq> set ''0123456789'' \<and> hd ds \<noteq> CHR ''0''
                \<and> int (read_decimal ds) = \<bar>sint (MaxSize p)\<bar>"
  proof (cases "MaxSize p = 0")
    case True
    then show ?thesis by simp
  next
    case False
    from FormatInt10_digits [OF False] obtain ds where
      "FormatInt10 (MaxSize p) = (if sint (MaxSize p) < 0 then ''-'' else '''') @ ds"
      "ds \<noteq> []" "set ds \<subseteq> set ''0123456789''" "hd ds \<noteq> CHR ''0''"
      "int (read_decimal ds) = \<bar>sint (MaxSize p)\<bar>"
      by blast
    with False show ?thesis by auto
  qed
  have "Method ?req = GET" "Uri ?req = ''/v2/document/''"
    "Params ?req ''status'' = (if Status p = '''' then None else Some (Status p))"
    "Params ?req ''marker'' = (if Marker p = '''' then None else Some (Marker p))"
    "dom (Params ?req) \<subseteq> {''status'', ''marker'', ''maxSize''}"
    by (auto simp add: dom_def)
  with sent maxSize show ?thesis by blast
qed

text \<open>
  The theorem at marker \<^verbatim>\<open>m1\<close> and maxSize 20: the query holds \<^verbatim>\<open>marker=m1\<close> and
  \<^verbatim>\<open>maxSize=20\<close>, and no \<^verbatim>\<open>status\<close>.
\<close>

theorem ListDocuments_request_witness:
  "Check_maxSize (Some \<lparr>Status = '''', Marker = ''m1'', MaxSize = 20\<rparr>) = Returns None
   \<and> length (sent (snd (ListDocuments Check_maxSize body_text (answering Success)
         (Some \<lparr>Status = '''', Marker = ''m1'', MaxSize = 20\<rparr>)))) = 1
   \<and> Method (hd (sent (snd (ListDocuments Check_maxSize body_text (answering Success)
         (Some \<lparr>Status = '''', Marker = ''m1'', MaxSize = 20\<rparr>))))) = GET
   \<and> Uri (hd (sent (snd (ListDocuments Check_maxSize body_text (answering Success)
         (Some \<lparr>Status = '''', Marker = ''m1'', MaxSize = 20\<rparr>))))) = ''/v2/document/''
   \<and> Params (hd (sent (snd (ListDocuments Check_maxSize body_text (answering Success)
         (Some \<lparr>Status = '''', Marker = ''m1'', MaxSize = 20\<rparr>))))) ''status'' = None
   \<and> Params (hd (sent (snd (ListDocuments Check_maxSize body_text (answering Success)
         (Some \<lparr>Status = '''', Marker = ''m1'', MaxSize = 20\<rparr>))))) ''marker'' = Some ''m1''
   \<and> Params (hd (sent (snd (ListDocuments Check_maxSize body_text (answering Success)
         (Some \<lparr>Status = '''', Marker = ''m1'', MaxSize = 20\<rparr>))))) ''maxSize'' = Some ''20''"
proof -
  let ?p = "\<lparr>Status = '''', Marker = ''m1'', MaxSize = 20\<rparr>"
  have chk: "Check_maxSize (Some ?p) = Returns None"
    by (simp add: Check_maxSize_def)
  from ListDocuments_request [of Check_maxSize ?p body_text "answering Success", OF chk]
  obtain req where req:
    "sent (snd (ListDocuments Check_maxSize body_text (answering Success) (Some ?p))) = [req]"
    "Method req = GET" "Uri req = ''/v2/document/''" "Params req ''status'' = None"
    "Params req ''marker'' = Some ''m1''"
    and "\<exists>ds. Params req ''maxSize'' = Some ds \<and> ds \<noteq> [] \<and> set ds \<subseteq> set ''0123456789''
          \<and> hd ds \<noteq> CHR ''0'' \<and> read_decimal ds = 20"
    by auto
  then obtain ds where ds: "Params req ''maxSize'' = Some ds" "ds \<noteq> []"
    "set ds \<subseteq> set ''0123456789''" "hd ds \<noteq> CHR ''0''" "read_decimal ds = 20"
    by blast
  from decimal_read_decimal [OF ds(2,3,4)] ds(5) have "ds = decimal 20" by simp
  also have "decimal 20 = ''20''" by (simp add: decimal.simps)
  finally have "Params req ''maxSize'' = Some ''20''" using ds(1) by simp
  with chk req show ?thesis by simp
qed



text \<open>
  C7. QueryDocument called with a queryParam sends one request, with method GET, the path
  \<^verbatim>\<open>/v2/document/\<close> followed by the document id, and the query parameter \<^verbatim>\<open>https\<close> set to
  \<^verbatim>\<open>strconv.FormatBool\<close> of the Https field, which is \<^verbatim>\<open>true\<close> or \<^verbatim>\<open>false\<close>. For the document
  id \<^verbatim>\<open>abc123\<close> and Https true the path is \<^verbatim>\<open>/v2/document/abc123\<close> and the query holds
  \<^verbatim>\<open>https=true\<close>.
\<close>

theorem QueryDocument_request:
  "(\<exists>req. sent (snd (QueryDocument ParseJsonBody cli documentId (Some q))) = [req]
          \<and> Method req = GET
          \<and> Uri req = ''/v2/document/'' @ documentId
          \<and> Params req ''https'' = Some (FormatBool (Https q))
          \<and> FormatBool (Https q) = (if Https q then ''true'' else ''false''))
   \<and> (\<exists>req. sent (snd (QueryDocument ParseJsonBody cli ''abc123'' (Some \<lparr>Https = True\<rparr>))) = [req]
          \<and> Uri req = ''/v2/document/abc123''
          \<and> Params req ''https'' = Some ''true'')"
  by (simp add: QueryDocument_eq sent_dispatch FormatBool_def)

text \<open>
  C8. Every request that RegisterDocument sends has the header Content-Type set to the
  default content type; PublishDocument, QueryDocument, ReadDocument, GetImages and
  DeleteDocument each send one request, and it has that header with that value; every
  request that ListDocuments sends has no Content-Type header.
\<close>

theorem content_type_header:
  "(\<forall>req \<in> set (sent (snd (RegisterDocument String ParseReg cli regParam))).
        Headers req CONTENT_TYPE = Some DEFAULT_CONTENT_TYPE)
   \<and> (\<exists>req. sent (snd (PublishDocument cli publishId)) = [req]
          \<and> Headers req CONTENT_TYPE = Some DEFAULT_CONTENT_TYPE)
   \<and> (\<exists>req. sent (snd (QueryDocument ParseQuery cli queryId queryParam)) = [req]
          \<and> Headers req CONTENT_TYPE = Some DEFAULT_CONTENT_TYPE)
   \<and> (\<exists>req. sent (snd (ReadDocument ParseRead cli readId readParam)) = [req]
          \<and> Headers req CONTENT_TYPE = Some DEFAULT_CONTENT_TYPE)
   \<and> (\<exists>req. sent (snd (GetImages ParseImages cli imagesId)) = [req]
          \<and> Headers req CONTENT_TYPE = Some DEFAULT_CONTENT_TYPE)
   \<and> (\<exists>req. sent (snd (DeleteDocument cli deleteId)) = [req]
          \<and> Headers req CONTENT_TYPE = Some DEFAULT_CONTENT_TYPE)
   \<and> (\<forall>req \<in> set (sent (snd (ListDocuments Check ParseList cli listParam))).
        Headers req CONTENT_TYPE = None)"
proof (intro conjI)
  show "\<forall>req \<in> set (sent (snd (RegisterDocument String ParseReg cli regParam))).
      Headers req CONTENT_TYPE = Some DEFAULT_CONTENT_TYPE"
  proof (cases regParam)
    case None
    then show ?thesis by (simp add: RegisterDocument_def)
  next
    case (Some p)
    then show ?thesis
      by (cases "String p") (simp_all add: RegisterDocument_eq sent_dispatch)
  qed
  show "\<forall>req \<in> set (sent (snd (ListDocuments Check ParseList cli listParam))).
      Headers req CONTENT_TYPE = None"
  proof (cases "Check listParam")
    case Panics
    then show ?thesis by (simp add: ListDocuments_def)
  next
    case (Returns e)
    show ?thesis
    proof (cases e)
      case (Some err)
      with Returns show ?thesis by (simp add: ListDocuments_def)
    next
      case None
      show ?thesis
      proof (cases listParam)
        case nil: None
        with Returns None show ?thesis by (simp add: ListDocuments_def)
      next
        case (Some p)
        with Returns None have chk: "Check (Some p) = Returns None" by simp
        from Some show ?thesis
          by (simp add: ListDocuments_eq [of Check p, OF chk] sent_dispatch)
      qed
    qed
  qed
qed (simp_all add: PublishDocument_eq QueryDocument_eq ReadDocument_eq GetImages_eq
    DeleteDocument_eq sent_dispatch sent_dispatch_error)

text \<open>
  The theorem at one call of RegisterDocument and one of ListDocuments that send a request.
\<close>

theorem content_type_header_witness:
  "length (sent (snd (RegisterDocument plain_String body_text (answering Success)
      (Some \<lparr>Title = ''t'', Format = ''pdf''\<rparr>)))) = 1
   \<and> Headers (hd (sent (snd (RegisterDocument plain_String body_text (answering Success)
        (Some \<lparr>Title = ''t'', Format = ''pdf''\<rparr>))))) CONTENT_TYPE = Some DEFAULT_CONTENT_TYPE
   \<and> length (sent (snd (ListDocuments Check_maxSize body_text (answering Success)
        (Some \<lparr>Status = '''', Marker = ''m1'', MaxSize = 20\<rparr>)))) = 1
   \<and> Headers (hd (sent (snd (ListDocuments Check_maxSize body_text (answering Success)
        (Some \<lparr>Status = '''', Marker = ''m1'', MaxSize = 20\<rparr>))))) CONTENT_TYPE = None"
proof -
  let ?reg = "RegisterDocument plain_String body_text (answering Success)
                (Some \<lparr>Title = ''t'', Format = ''pdf''\<rparr>)"
  let ?lst = "ListDocuments Check_maxSize body_text (answering Success)
                (Some \<lparr>Status = '''', Marker = ''m1'', MaxSize = 20\<rparr>)"
  have chk: "Check_maxSize (Some \<lparr>Status = '''', Marker = ''m1'', MaxSize = 20\<rparr>) = Returns None"
    by (simp add: Check_maxSize_def)
  have reg1: "length (sent (snd ?reg)) = 1"
    by (simp add: RegisterDocument_eq plain_String_t_pdf sent_dispatch)
  have lst1: "length (sent (snd ?lst)) = 1"
    by (simp add: ListDocuments_eq [of Check_maxSize, OF chk] sent_dispatch)
  from reg1 have "hd (sent (snd ?reg)) \<in> set (sent (snd ?reg))"
    by (intro hd_in_set) auto
  from content_type_header [THEN conjunct1, THEN bspec, OF this]
  have reg: "Headers (hd (sent (snd ?reg))) CONTENT_TYPE = Some DEFAULT_CONTENT_TYPE" .
  from lst1 have "hd (sent (snd ?lst)) \<in> set (sent (snd ?lst))"
    by (intro hd_in_set) auto
  from content_type_header [THEN conjunct2, THEN conjunct2, THEN conjunct2, THEN conjunct2,
      THEN conjunct2, THEN conjunct2, THEN bspec, OF this]
  have lst: "Headers (hd (sent (snd ?lst))) CONTENT_TYPE = None" .
  from reg1 reg lst1 lst show ?thesis by (intro conjI)
qed

text \<open>
  PublishDocument called with the empty document id does not fail and does call the
  transport: against a transport that answers with a success it returns no error, having
  sent one request, to the path \<^verbatim>\<open>/v2/document/\<close>.
\<close>

theorem PublishDocument_empty_id_counterexample:
  "fst (PublishDocument (answering Success) '''') = None
   \<and> map Uri (sent (snd (PublishDocument (answering Success) ''''))) = [''/v2/document/'']"
  by (simp add: PublishDocument_eq dispatch_error_def answering_def Success_def)

text \<open>
  C9, as the code has it. PublishDocument does not validate the document id: for every id,
  empty or not, it sends one request, with method PUT, the path \<^verbatim>\<open>/v2/document/\<close> followed
  by the id, and the key \<^verbatim>\<open>publish\<close> among its query parameters.
\<close>

theorem PublishDocument_request:
  "\<exists>req. sent (snd (PublishDocument cli documentId)) = [req]
        \<and> Method req = PUT
        \<and> Uri req = ''/v2/document/'' @ documentId
        \<and> ''publish'' \<in> dom (Params req)"
  by (simp add: PublishDocument_eq sent_dispatch_error)

text \<open>
  C10. ListDocuments has no nil guard. Called with a nil listParam it gives the pointer to
  \<^verbatim>\<open>Check\<close>, and what happens is what \<^verbatim>\<open>Check\<close> does with nil: a panic when the check
  panics, the check's own error when it returns one, and a panic at \<^verbatim>\<open>listParam.Status\<close>
  when it returns none. With a check that reads a field of its receiver the call panics.
  No request is sent. RegisterDocument, given nil, returns the error of its guard.
\<close>

theorem ListDocuments_nil_param:
  "ListDocuments Check ParseJsonBody cli None =
     (case Check None of
        Panics \<Rightarrow> (Panics, [])
      | Returns None \<Rightarrow> (Panics, [])
      | Returns (Some err) \<Rightarrow> (Returns (Inl err), []))
   \<and> ListDocuments Check_maxSize ParseJsonBody cli None = (Panics, [])
   \<and> RegisterDocument String ParseReg cli None =
       (Inl (errors_New ''param cannot be nil''), [])"
  by (simp add: ListDocuments_def RegisterDocument_def Check_maxSize_def
      split: go.split option.split)

end
